theory Spec2Isabelle
  imports Main "HOL-Library.AList"
begin

section \<open>Python values, strings and errors\<close>

text \<open>
  A Python \<open>str\<close> is modelled as a \<open>string\<close>; a \<open>char\<close> stands for the code point of
  the same number (U+0000 to U+00FF). The code points above U+00FF are outside the model;
  among them only U+2028 and U+2029 (line boundaries of \<open>str.splitlines\<close>) and the Unicode
  spaces matched by \<open>\s\<close> behave differently from an ordinary character in this module.

  A metadata value is a JSON-like Python value. Floats are not modelled.
\<close>

datatype pyval =
    VNone
  | VBool bool
  | VInt int
  | VStr string
  | VList "pyval list"
  | VDict "(string \<times> pyval) list"

text \<open>
  A Python \<open>dict\<close> with string keys: an association list with distinct keys, in insertion
  order. \<open>d[k] = v\<close> is \<open>AList.update k v d\<close> (in place when the key is present, appended
  otherwise), \<open>del d[k]\<close> is \<open>AList.delete k d\<close>, \<open>k in d\<close> is \<open>map_of d k \<noteq> None\<close>,
  and \<open>not d\<close> is \<open>d = []\<close>.
\<close>

type_synonym metadata = "(string \<times> pyval) list"

datatype error = KeyError string | TypeError | OverflowError | CollaboratorError

definition has_key :: "metadata \<Rightarrow> string \<Rightarrow> bool" where
  \<comment> \<open>\<open>k in d\<close>\<close>
  "has_key d k = (map_of d k \<noteq> None)"

definition dict_get :: "metadata \<Rightarrow> string \<Rightarrow> pyval \<Rightarrow> pyval" where
  \<comment> \<open>\<open>d.get(k, dflt)\<close>\<close>
  "dict_get d k dflt = (case map_of d k of None \<Rightarrow> dflt | Some v \<Rightarrow> v)"

definition py_or :: "string option \<Rightarrow> string option \<Rightarrow> string option" where
  \<comment> \<open>\<open>x or y\<close> on values that are \<open>None\<close> or a string: \<open>None\<close> and the empty string are
      false\<close>
  "py_or x y = (case x of None \<Rightarrow> y | Some s \<Rightarrow> if s = [] then y else Some s)"

definition py_iadd :: "pyval \<Rightarrow> int \<Rightarrow> error + pyval" where
  \<comment> \<open>\<open>x += k\<close> for an integer \<open>k\<close>: defined on integers and booleans, a \<open>TypeError\<close> on
      every other value of the model\<close>
  "py_iadd x k =
     (case x of
        VInt n \<Rightarrow> Inr (VInt (n + k))
      | VBool b \<Rightarrow> Inr (VInt ((if b then 1 else 0) + k))
      | _ \<Rightarrow> Inl TypeError)"

definition py_repeat :: "string list \<Rightarrow> pyval \<Rightarrow> error + string list" where
  \<comment> \<open>\<open>xs * n\<close> on a list. The count is converted to a machine index first (64 bits,
      signed): an \<open>OverflowError\<close> when \<open>n\<close> is an integer outside \<open>-2^63 \<le> n < 2^63\<close>, a
      \<open>TypeError\<close> when \<open>n\<close> is not an integer. Within the range the list is empty when \<open>n\<close>
      is negative. Running out of memory on a large count is not modelled.\<close>
  "py_repeat xs n =
     (case n of
        VInt k \<Rightarrow>
          if k < - (2 ^ 63) \<or> 2 ^ 63 \<le> k then Inl OverflowError
          else Inr (concat (replicate (nat k) xs))
      | VBool b \<Rightarrow> Inr (if b then xs else [])
      | _ \<Rightarrow> Inl TypeError)"

definition language_value :: "string option \<Rightarrow> pyval" where
  \<comment> \<open>a language, \<open>None\<close> or a string, as a metadata value\<close>
  "language_value l = (case l of None \<Rightarrow> VNone | Some s \<Rightarrow> VStr s)"

subsection \<open>\<open>str.splitlines\<close>, \<open>str.endswith\<close>, \<open>str.join\<close>\<close>

definition LF :: char where "LF = CHR 0x0A"
definition CR :: char where "CR = CHR 0x0D"

definition is_linebreak :: "char \<Rightarrow> bool" where
  \<comment> \<open>the line boundaries of \<open>str.splitlines\<close>: \<open>\n \r \v \f \x1c \x1d \x1e \x85\<close>\<close>
  "is_linebreak c = (c \<in> set [CHR 0x0A, CHR 0x0D, CHR 0x0B, CHR 0x0C,
                               CHR 0x1C, CHR 0x1D, CHR 0x1E, CHR 0x85])"

fun splitlines_from :: "string \<Rightarrow> string \<Rightarrow> string list" where
  \<comment> \<open>\<open>splitlines_from cur s\<close>: \<open>cur\<close> is the line read so far, reversed. \<open>\r\n\<close> is one
      boundary. A last line is produced only when it is not empty.\<close>
  "splitlines_from cur [] = (if cur = [] then [] else [rev cur])"
| "splitlines_from cur [c] =
     (if is_linebreak c then [rev cur] else [rev (c # cur)])"
| "splitlines_from cur (c # d # s) =
     (if c = CR \<and> d = LF then rev cur # splitlines_from [] s
      else if is_linebreak c then rev cur # splitlines_from [] (d # s)
      else splitlines_from (c # cur) (d # s))"

definition splitlines :: "string \<Rightarrow> string list" where
  "splitlines s = splitlines_from [] s"

definition endswith :: "string \<Rightarrow> string \<Rightarrow> bool" where
  "endswith s suffix = (length suffix \<le> length s \<and> drop (length s - length suffix) s = suffix)"

definition startswith :: "string \<Rightarrow> string \<Rightarrow> bool" where
  "startswith s p = (take (length p) s = p)"

fun join :: "string \<Rightarrow> string list \<Rightarrow> string" where
  \<comment> \<open>\<open>sep.join(lines)\<close>\<close>
  "join sep [] = []"
| "join sep [l] = l"
| "join sep (l # m # ls) = l @ sep @ join sep (m # ls)"

section \<open>Cells\<close>

record cell =
  c_cell_type :: string
  c_source :: string
  c_metadata :: metadata

definition cell_source :: "cell \<Rightarrow> string list" where
  "cell_source cell =
     (let source = c_source cell in
      if source = [] then [[]]
      else if endswith source [LF] then splitlines source @ [[]]
      else splitlines source)"

definition trailing :: "string \<Rightarrow> string \<Rightarrow> string list" where
  \<comment> \<open>the empty line that \<open>cell_source\<close> adds to the lines of \<open>splitlines_from cur s\<close>: one
      when the text ends in a line feed or is empty, none otherwise\<close>
  "trailing cur s =
     (if s = [] then (if cur = [] then [[]] else [])
      else if last s = LF then [[]] else [])"

section \<open>The end-of-cell marker\<close>

definition is_space :: "char \<Rightarrow> bool" where
  \<comment> \<open>the class \<open>\s\<close> of \<open>re\<close> on a \<open>str\<close> pattern: \<open>\t \n \v \f \r \x1c \x1d \x1e \x1f\<close>, the
      space, \<open>\x85\<close> and \<open>\xa0\<close>\<close>
  "is_space c = (c \<in> set [CHR 0x09, CHR 0x0A, CHR 0x0B, CHR 0x0C, CHR 0x0D,
                          CHR 0x1C, CHR 0x1D, CHR 0x1E, CHR 0x1F, CHR 0x20,
                          CHR 0x85, CHR 0xA0])"

definition endofcell_re_match :: "string \<Rightarrow> string \<Rightarrow> bool" where
  \<comment> \<open>\<open>re.compile(r'^#( )' + endofcell + r'\s*$').match(line)\<close>. The loop only builds
      tokens of \<open>-\<close> characters, which a pattern reads literally; \<open>$\<close> also matches before
      a final \<open>\n\<close>, which \<open>\s*\<close> takes as well, so the line matches when it is \<open>#\<close>, one
      space, the token, and then spaces only.\<close>
  "endofcell_re_match endofcell line =
     (startswith line (''# '' @ endofcell) \<and>
      list_all is_space (drop (length (''# '' @ endofcell)) line))"

function endofcell_loop :: "string list \<Rightarrow> string \<Rightarrow> string" where
  \<comment> \<open>the \<open>while True\<close> loop, from the current value of \<open>endofcell\<close>\<close>
  "endofcell_loop source endofcell =
     (if filter (endofcell_re_match endofcell) source \<noteq> []
      then endofcell_loop source (endofcell @ ''-'')
      else endofcell)"
  by pat_completeness auto
termination
proof (relation "measure (\<lambda>(source, endofcell). sum_list (map length source) - length endofcell)")
  show "wf (measure (\<lambda>(source, endofcell). sum_list (map length source) - length endofcell))"
    by simp
next
  fix source :: "string list" and endofcell :: string
  assume "filter (endofcell_re_match endofcell) source \<noteq> []"
  then obtain l where l: "l \<in> set source" "endofcell_re_match endofcell l"
    by (auto simp: filter_empty_conv)
  from l(2) have "take (length (''# '' @ endofcell)) l = ''# '' @ endofcell"
    by (simp add: endofcell_re_match_def startswith_def)
  then have "length (take (length (''# '' @ endofcell)) l) = length (''# '' @ endofcell)"
    by (rule arg_cong)
  then have "length endofcell + 2 \<le> length l"
    by simp
  moreover from l(1) have "length l \<le> sum_list (map length source)"
    by (simp add: member_le_sum_list)
  ultimately show "((source, endofcell @ ''-''), (source, endofcell))
      \<in> measure (\<lambda>(source, endofcell). sum_list (map length source) - length endofcell)"
    by simp
qed

declare endofcell_loop.simps [simp del]

definition py_endofcell_marker :: "string list \<Rightarrow> string" where
  "py_endofcell_marker source = endofcell_loop source ''-''"

text \<open>
  The same loop with a bound on the number of iterations: each iteration compiles one
  pattern and tests it against the source. \<open>None\<close> when the bound is reached.
\<close>

fun endofcell_loop_within :: "nat \<Rightarrow> string list \<Rightarrow> string \<Rightarrow> string option" where
  "endofcell_loop_within 0 source endofcell = None"
| "endofcell_loop_within (Suc k) source endofcell =
     (if filter (endofcell_re_match endofcell) source \<noteq> []
      then endofcell_loop_within k source (endofcell @ ''-'')
      else Some endofcell)"

definition py_endofcell_marker_within :: "nat \<Rightarrow> string list \<Rightarrow> string option" where
  "py_endofcell_marker_within k source = endofcell_loop_within k source ''-''"

definition dashes :: "nat \<Rightarrow> string" where
  \<comment> \<open>the tokens \<open>-\<close>, \<open>--\<close>, \<open>---\<close>, ...\<close>
  "dashes n = replicate n CHR ''-''"

definition collides :: "string list \<Rightarrow> string \<Rightarrow> bool" where
  \<comment> \<open>some line of the source matches the pattern of the token\<close>
  "collides source endofcell = list_ex (endofcell_re_match endofcell) source"

definition colliding_line :: "string \<Rightarrow> bool" where
  \<comment> \<open>a line that matches the pattern of some token: \<open>#\<close>, a space, one \<open>-\<close> or more, and
      then spaces only\<close>
  "colliding_line line =
     (startswith line ''# '' \<and>
      takeWhile (\<lambda>c. c = CHR ''-'') (drop 2 line) \<noteq> [] \<and>
      list_all is_space (dropWhile (\<lambda>c. c = CHR ''-'') (drop 2 line)))"

definition dash_count :: "string \<Rightarrow> nat" where
  \<comment> \<open>the number of \<open>-\<close> characters that follow the first two characters of a line\<close>
  "dash_count line = length (takeWhile (\<lambda>c. c = CHR ''-'') (drop 2 line))"

section \<open>The exporter and its collaborators\<close>

record exporter =
  self_ext :: string
  self_cell_type :: string
  self_source :: "string list"
  self_metadata :: metadata
  self_language :: "string option"
  self_padlines :: pyval
  self_skiplines :: pyval

text \<open>
  The functions that the module imports from \<open>languages\<close>, \<open>cells\<close>, \<open>cell_metadata\<close> and
  \<open>magics\<close> are parameters of the model, and so is \<open>str\<close> on a value that is not a string
  (\<open>str_format\<close>). The two option serializers may raise; the others are taken to return.
  \<open>escape_magic\<close> changes its list in place: here it returns the new list.
\<close>

record collaborators =
  filter_metadata :: "metadata \<Rightarrow> metadata"
  cell_language :: "string list \<Rightarrow> string option"
  is_active :: "string \<Rightarrow> metadata \<Rightarrow> bool"
  escape_magic :: "string list \<Rightarrow> string option \<Rightarrow> string list"
  metadata_to_rmd_options :: "string option \<Rightarrow> metadata \<Rightarrow> error + string"
  metadata_to_json_options :: "metadata \<Rightarrow> error + string"
  code_to_cell :: "exporter \<Rightarrow> string list \<Rightarrow> bool \<Rightarrow> cell \<times> nat"
  str_format :: "pyval \<Rightarrow> string"

definition format_field :: "collaborators \<Rightarrow> pyval \<Rightarrow> string" where
  \<comment> \<open>what \<open>'{}'.format(v)\<close> puts for \<open>v\<close>\<close>
  "format_field env v = (case v of VStr s \<Rightarrow> s | _ \<Rightarrow> str_format env v)"

subsection \<open>The three encoders\<close>

text \<open>
  An encoder changes the metadata it is given, also when it raises afterwards: it returns
  its result, or the error, together with the metadata as it leaves it.
\<close>

definition code_to_rmd ::
  "collaborators \<Rightarrow> string list \<Rightarrow> metadata \<Rightarrow> string option \<Rightarrow> (error + string list) \<times> metadata" where
  "code_to_rmd env source metadata language =
     (let metadata = (if \<not> is_active env ''Rmd'' metadata
                      then AList.update ''eval'' (VBool False) metadata else metadata)
      in case metadata_to_rmd_options env language metadata of
           Inl e \<Rightarrow> (Inl e, metadata)
         | Inr options \<Rightarrow> (Inr ([''```{'' @ options @ ''}''] @ source @ [''```'']), metadata))"

definition code_to_r ::
  "collaborators \<Rightarrow> string list \<Rightarrow> metadata \<Rightarrow> (error + string list) \<times> metadata" where
  "code_to_r env source metadata =
     (let metadata = (if \<not> is_active env ''R'' metadata
                      then AList.update ''eval'' (VBool False) metadata else metadata)
      in case metadata_to_rmd_options env None metadata of
           Inl e \<Rightarrow> (Inl e, metadata)
         | Inr options \<Rightarrow>
             (Inr ((if options \<noteq> [] then [''#+ '' @ options] else []) @ source), metadata))"

definition code_to_py ::
  "collaborators \<Rightarrow> string list \<Rightarrow> metadata \<Rightarrow> pyval \<Rightarrow> (error + string list) \<times> metadata" where
  "code_to_py env source metadata padlines =
     (if metadata = [] then (Inr source, metadata)
      else case map_of metadata ''endofcell'' of
        None \<Rightarrow> (Inl (KeyError ''endofcell''), metadata)
      | Some endofcell \<Rightarrow>
          (let metadata = (if endofcell = VStr ''-''
                           then AList.delete ''endofcell'' metadata else metadata)
           in case metadata_to_json_options env metadata of
                Inl e \<Rightarrow> (Inl e, metadata)
              | Inr options \<Rightarrow>
                  (case py_repeat [[]] padlines of
                     Inl e \<Rightarrow> (Inl e, metadata)
                   | Inr pad \<Rightarrow>
                       (Inr ([''# + '' @ options] @ source @ pad
                             @ [''# '' @ format_field env endofcell]), metadata))))"

subsection \<open>\<open>CellExporter\<close>\<close>

definition CellExporter ::
  "collaborators \<Rightarrow> cell \<Rightarrow> string option \<Rightarrow> string \<Rightarrow> error + exporter" where
  \<comment> \<open>\<open>__init__\<close>: the two legacy adjustments of \<open>skiplines\<close> may raise\<close>
  "CellExporter env cell default_language ext =
     (let source = cell_source cell;
          metadata = filter_metadata env (c_metadata cell);
          language = py_or (cell_language env source) default_language;
          padlines = dict_get (c_metadata cell) ''padlines'' (VInt 0);
          skiplines = dict_get (c_metadata cell) ''skiplines'' (VInt 1)
      in case (if has_key (c_metadata cell) ''skipline''
               then py_iadd skiplines 1 else Inr skiplines) of
           Inl e \<Rightarrow> Inl e
         | Inr skiplines \<Rightarrow>
            (case (if has_key (c_metadata cell) ''noskipline''
                   then py_iadd skiplines (- 1) else Inr skiplines) of
               Inl e \<Rightarrow> Inl e
             | Inr skiplines \<Rightarrow>
                 Inr \<lparr> self_ext = ext,
                       self_cell_type = c_cell_type cell,
                       self_source = source,
                       self_metadata =
                         (if c_cell_type cell = ''raw'' \<and> \<not> has_key metadata ''active''
                          then AList.update ''active'' (VStr []) metadata else metadata),
                       self_language = language,
                       self_padlines = padlines,
                       self_skiplines = skiplines \<rparr>))"

definition is_code :: "exporter \<Rightarrow> bool" where
  "is_code self =
     (if self_cell_type self = ''code'' then True
      else if self_cell_type self = ''raw'' \<and> has_key (self_metadata self) ''active'' then True
      else False)"

definition apostrophe :: char where
  "apostrophe = CHR 0x27"

definition markdown_escape :: "exporter \<Rightarrow> string list \<Rightarrow> string list" where
  "markdown_escape self source =
     (if self_ext self = ''.Rmd'' then source
      else if self_ext self = ''.R''
        then map (\<lambda>line. if line \<noteq> [] then ''#'' @ [apostrophe] @ '' '' @ line
                          else ''#'' @ [apostrophe]) source
      else map (\<lambda>line. if line \<noteq> [] then ''# '' @ line else ''#'') source)"

definition explicit_start_marker :: "collaborators \<Rightarrow> exporter \<Rightarrow> string list \<Rightarrow> bool" where
  "explicit_start_marker env self source =
     (if self_metadata self \<noteq> [] then True
      else if list_all (\<lambda>line. startswith line ''#'') (self_source self) then True
      else if snd (code_to_cell env self source False) \<noteq> length source then True
      else False)"

definition comment_line :: "string \<Rightarrow> string" where
  \<comment> \<open>\<open>'# ' + line if line else '#'\<close>, the commenting of an inactive cell\<close>
  "comment_line line = (if line \<noteq> [] then ''# '' @ line else ''#'')"

definition code_to_text_active :: "collaborators \<Rightarrow> exporter \<Rightarrow> bool \<times> exporter" where
  \<comment> \<open>the first statements of \<open>code_to_text\<close>: the value of \<open>active\<close>, and the exporter
      once the language has been compared with the language of the dialect\<close>
  "code_to_text_active env self =
     (let active = is_active env (self_ext self) (self_metadata self) in
      if self_ext self \<in> set [''.R'', ''.py''] then
        if active \<and> self_language self \<noteq> Some (if self_ext self = ''.R'' then ''R'' else ''python'')
        then (False,
              self\<lparr>self_metadata :=
                AList.update ''language'' (language_value (self_language self))
                  (AList.update ''active'' (VStr ''ipynb'') (self_metadata self))\<rparr>)
        else (active, self)
      else (active, self))"

definition code_to_text :: "collaborators \<Rightarrow> exporter \<Rightarrow> (error + string list) \<times> exporter" where
  "code_to_text env self0 =
     (let (active, self) = code_to_text_active env self0;
          source = self_source self;
          source = (if active then escape_magic env source (self_language self) else source)
      in if self_ext self = ''.Rmd''
         then (let (r, metadata) = code_to_rmd env source (self_metadata self) (self_language self)
               in (r, self\<lparr>self_metadata := metadata\<rparr>))
         else
          (let source = (if \<not> active then map comment_line source else source)
           in if self_ext self = ''.R''
              then (let (r, metadata) = code_to_r env source (self_metadata self)
                    in (r, self\<lparr>self_metadata := metadata\<rparr>))
              else
               (let self = (if explicit_start_marker env self source
                            then self\<lparr>self_metadata :=
                                   AList.update ''endofcell'' (VStr (py_endofcell_marker source))
                                     (self_metadata self)\<rparr>
                            else self);
                    (r, metadata) = code_to_py env source (self_metadata self) (self_padlines self)
                in (r, self\<lparr>self_metadata := metadata\<rparr>))))"

definition code_to_text_source :: "collaborators \<Rightarrow> exporter \<Rightarrow> string list" where
  \<comment> \<open>the list \<open>source\<close> that \<open>code_to_text\<close> hands to the encoder of the dialect: the copy
      of \<open>self.source\<close>, with the magics escaped when the cell is active and, outside the
      dialect \<open>.Rmd\<close>, every line commented when it is not\<close>
  "code_to_text_source env self0 =
     (let (active, self) = code_to_text_active env self0;
          source = self_source self;
          source = (if active then escape_magic env source (self_language self) else source)
      in if self_ext self = ''.Rmd'' then source
         else if \<not> active then map comment_line source else source)"

definition cell_to_text :: "collaborators \<Rightarrow> exporter \<Rightarrow> (error + string list) \<times> exporter" where
  "cell_to_text env self =
     (if is_code self then code_to_text env self
      else (Inr (markdown_escape self (self_source self)), self))"

section \<open>A choice of collaborators for the examples\<close>

text \<open>
  The examples need the collaborators at concrete values. Here the metadata filter keeps
  everything, no language is detected, a cell is active unless its metadata has the key
  \<open>active\<close>, no magic is escaped, the options are the keys of the metadata, the decoder reads
  every line it is given, and \<open>str\<close> of a value that is not a string is \<open>?\<close>.
\<close>

definition example_env :: collaborators where
  "example_env =
     \<lparr> filter_metadata = (\<lambda>m. m),
       cell_language = (\<lambda>source. None),
       is_active = (\<lambda>ext m. \<not> has_key m ''active''),
       escape_magic = (\<lambda>source language. source),
       metadata_to_rmd_options = (\<lambda>language m. Inr (join '', '' (map fst m))),
       metadata_to_json_options = (\<lambda>m. Inr (join '', '' (map fst m))),
       code_to_cell = (\<lambda>self source parse_opt.
         (\<lparr>c_cell_type = ''code'', c_source = join [LF] source, c_metadata = []\<rparr>,
          length source)),
       str_format = (\<lambda>v. ''?'') \<rparr>"

section \<open>Undoing \<open>markdown_escape\<close>\<close>

text \<open>
  Modelled from the spec: the decoder of markdown cells is not among the source files. The
  spec asks that \<open>markdown_escape\<close> be "exactly invertible by stripping the fixed prefix":
  \<open>strip_prefix\<close> takes the comment prefix off a line, with the space that follows it when
  there is one, and \<open>markdown_unescape\<close> does so on every line, with the prefix of the
  dialect.
\<close>

definition strip_prefix :: "string \<Rightarrow> string \<Rightarrow> string" where
  "strip_prefix p line =
     (if startswith line (p @ '' '') then drop (length p + 1) line
      else if startswith line p then drop (length p) line
      else line)"

definition markdown_unescape :: "exporter \<Rightarrow> string list \<Rightarrow> string list" where
  "markdown_unescape self lines =
     (if self_ext self = ''.Rmd'' then lines
      else if self_ext self = ''.R'' then map (strip_prefix (''#'' @ [apostrophe])) lines
      else map (strip_prefix ''#'') lines)"

definition is_number :: "pyval \<Rightarrow> bool" where
  \<comment> \<open>the values of the model on which \<open>+= 1\<close> and \<open>-= 1\<close> are defined\<close>
  "is_number v = (case v of VInt n \<Rightarrow> True | VBool b \<Rightarrow> True | _ \<Rightarrow> False)"

section \<open>What the spec says of \<open>escape_magic\<close>\<close>

text \<open>
  Modelled from the spec: \<open>escape_magic\<close> is not among the source files. The spec describes
  it as a function that "mutates source lines in place, turning inline cross-language
  directives into dialect-safe comments": it changes lines of the list it is given, and
  gives back as many lines as it was given.
\<close>

definition escapes_in_place :: "collaborators \<Rightarrow> bool" where
  "escapes_in_place env =
     (\<forall>source language. length (escape_magic env source language) = length source)"

section \<open>Properties of the end-of-cell marker\<close>

lemma filter_collides: "(filter (endofcell_re_match e) source \<noteq> []) = collides source e"
  by (auto simp: collides_def filter_empty_conv list_ex_iff)

lemma dashes_Suc: "dashes k @ ''-'' = dashes (Suc k)"
  by (simp add: dashes_def replicate_append_same)

lemma endofcell_loop_shortest:
  "endofcell = dashes k \<Longrightarrow>
   \<exists>n. k \<le> n \<and> endofcell_loop source endofcell = dashes n \<and> \<not> collides source (dashes n) \<and>
       (\<forall>m. k \<le> m \<and> m < n \<longrightarrow> collides source (dashes m))"
proof (induction source endofcell arbitrary: k rule: endofcell_loop.induct)
  case (1 source endofcell)
  show ?case
  proof (cases "collides source endofcell")
    case True
    then have t: "filter (endofcell_re_match endofcell) source \<noteq> []"
      by (simp add: filter_collides)
    have "endofcell @ ''-'' = dashes (Suc k)"
      using "1.prems" by (simp add: dashes_Suc)
    from "1.IH"[OF t this] obtain n where n: "Suc k \<le> n"
      "endofcell_loop source (endofcell @ ''-'') = dashes n" "\<not> collides source (dashes n)"
      "\<forall>m. Suc k \<le> m \<and> m < n \<longrightarrow> collides source (dashes m)"
      by blast
    have "endofcell_loop source endofcell = dashes n"
      using t n(2) by (simp add: endofcell_loop.simps[of source endofcell])
    moreover have "\<forall>m. k \<le> m \<and> m < n \<longrightarrow> collides source (dashes m)"
    proof (intro allI impI)
      fix m assume m: "k \<le> m \<and> m < n"
      show "collides source (dashes m)"
      proof (cases "m = k")
        case True
        with \<open>collides source endofcell\<close> "1.prems" show ?thesis by simp
      next
        case False
        with m n(4) show ?thesis by simp
      qed
    qed
    ultimately show ?thesis using n(1,3) by (intro exI[of _ n]) simp
  next
    case False
    then have "endofcell_loop source endofcell = endofcell"
      by (simp add: endofcell_loop.simps[of source endofcell] filter_collides)
    with False "1.prems" show ?thesis by (intro exI[of _ k]) auto
  qed
qed

lemma not_space_dash: "\<not> is_space CHR ''-''"
  by (simp add: is_space_def)

lemma takeWhile_dash_spaces:
  "list_all is_space rest \<Longrightarrow> takeWhile (\<lambda>c. c = CHR ''-'') rest = []"
  by (cases rest) (auto simp: not_space_dash)

lemma takeWhile_dashes:
  "takeWhile (\<lambda>c. c = CHR ''-'') rest = [] \<Longrightarrow>
   takeWhile (\<lambda>c. c = CHR ''-'') (dashes m @ rest) = dashes m"
  by (induction m) (simp_all add: dashes_def)

lemma dropWhile_dash_spaces:
  "list_all is_space rest \<Longrightarrow> dropWhile (\<lambda>c. c = CHR ''-'') rest = rest"
  by (cases rest) (auto simp: not_space_dash)

lemma dropWhile_dashes:
  "dropWhile (\<lambda>c. c = CHR ''-'') rest = rest \<Longrightarrow>
   dropWhile (\<lambda>c. c = CHR ''-'') (dashes m @ rest) = rest"
  by (induction m) (simp_all add: dashes_def)

lemma match_dashes_split:
  assumes "endofcell_re_match (dashes m) l"
  shows "\<exists>rest. l = ''# '' @ dashes m @ rest \<and> list_all is_space rest"
proof -
  from assms have t: "take (length (''# '' @ dashes m)) l = ''# '' @ dashes m"
    and r: "list_all is_space (drop (length (''# '' @ dashes m)) l)"
    by (simp_all add: endofcell_re_match_def startswith_def)
  have "l = take (length (''# '' @ dashes m)) l @ drop (length (''# '' @ dashes m)) l"
    by simp
  with t have "l = (''# '' @ dashes m) @ drop (length (''# '' @ dashes m)) l"
    by simp
  with r show ?thesis by auto
qed


lemma match_dash_count:
  assumes "endofcell_re_match (dashes m) l"
  shows "dash_count l = m"
proof -
  from match_dashes_split[OF assms] obtain rest
    where l: "l = ''# '' @ dashes m @ rest" and r: "list_all is_space rest" by blast
  have "takeWhile (\<lambda>c. c = CHR ''-'') (dashes m @ rest) = dashes m"
    using takeWhile_dash_spaces[OF r] by (rule takeWhile_dashes)
  with l show ?thesis by (simp add: dash_count_def dashes_def)
qed

lemma match_colliding_line:
  assumes "endofcell_re_match (dashes m) l" and "1 \<le> m"
  shows "colliding_line l"
proof -
  from match_dashes_split[OF assms(1)] obtain rest
    where l: "l = ''# '' @ dashes m @ rest" and r: "list_all is_space rest" by blast
  have tw: "takeWhile (\<lambda>c. c = CHR ''-'') (dashes m @ rest) = dashes m"
    using takeWhile_dash_spaces[OF r] by (rule takeWhile_dashes)
  have "dropWhile (\<lambda>c. c = CHR ''-'') (dashes m @ rest) = rest"
    using dropWhile_dash_spaces[OF r] by (rule dropWhile_dashes)
  with l r tw assms(2) show ?thesis
    by (simp add: colliding_line_def startswith_def dashes_def)
qed

lemma colliding_line_match:
  assumes "colliding_line l"
  shows "1 \<le> dash_count l \<and> endofcell_re_match (dashes (dash_count l)) l"
proof -
  let ?P = "\<lambda>c. c = CHR ''-''"
  from assms have p: "take 2 l = ''# ''" and ne: "takeWhile ?P (drop 2 l) \<noteq> []"
    and sp: "list_all is_space (dropWhile ?P (drop 2 l))"
    by (simp_all add: colliding_line_def startswith_def numeral_2_eq_2)
  have tw: "takeWhile ?P (drop 2 l) = dashes (dash_count l)"
    unfolding dashes_def dash_count_def
    by (rule replicate_length_same[symmetric]) (auto dest: set_takeWhileD)
  have "l = take 2 l @ takeWhile ?P (drop 2 l) @ dropWhile ?P (drop 2 l)"
    by simp
  with p tw have l: "l = ''# '' @ dashes (dash_count l) @ dropWhile ?P (drop 2 l)"
    by simp
  have "endofcell_re_match (dashes (dash_count l)) (''# '' @ dashes (dash_count l) @ dropWhile ?P (drop 2 l))"
    using sp by (simp add: endofcell_re_match_def startswith_def)
  with l have "endofcell_re_match (dashes (dash_count l)) l" by simp
  moreover from ne have "1 \<le> dash_count l"
    by (simp add: dash_count_def Suc_le_eq)
  ultimately show ?thesis by simp
qed

lemma colliding_line_iff:
  "colliding_line l \<longleftrightarrow> (\<exists>n\<ge>1. endofcell_re_match (dashes n) l)"
  using colliding_line_match match_colliding_line by blast

lemma tested_tokens_bound:
  assumes "\<forall>m. 1 \<le> m \<and> m < n \<longrightarrow> collides source (dashes m)"
  shows "n - 1 \<le> length (filter colliding_line source)"
proof -
  let ?S = "set (filter colliding_line source)"
  have "{1..<n} \<subseteq> dash_count ` ?S"
  proof
    fix m assume "m \<in> {1..<n}"
    then have m: "1 \<le> m" "m < n" by simp_all
    with assms have "collides source (dashes m)" by simp
    then obtain l where l: "l \<in> set source" "endofcell_re_match (dashes m) l"
      by (auto simp: collides_def list_ex_iff)
    from l(2) m(1) have "colliding_line l" by (rule match_colliding_line)
    moreover from l(2) have "dash_count l = m" by (rule match_dash_count)
    ultimately show "m \<in> dash_count ` ?S" using l(1) by force
  qed
  then have "card {1..<n} \<le> card (dash_count ` ?S)"
    by (intro card_mono) simp_all
  also have "\<dots> \<le> card ?S" by (simp add: card_image_le)
  also have "\<dots> \<le> length (filter colliding_line source)" by (rule card_length)
  finally show ?thesis by simp
qed

lemma endofcell_loop_length: "length endofcell \<le> length (endofcell_loop source endofcell)"
proof (induction source endofcell rule: endofcell_loop.induct)
  case (1 source endofcell)
  then show ?case
    by (cases "filter (endofcell_re_match endofcell) source \<noteq> []")
       (simp_all add: endofcell_loop.simps[of source endofcell])
qed

lemma endofcell_loop_within_enough:
  "length (endofcell_loop source endofcell) - length endofcell < k \<Longrightarrow>
   endofcell_loop_within k source endofcell = Some (endofcell_loop source endofcell)"
proof (induction source endofcell arbitrary: k rule: endofcell_loop.induct)
  case (1 source endofcell)
  from "1.prems" obtain k' where k: "k = Suc k'" by (cases k) auto
  show ?case
  proof (cases "filter (endofcell_re_match endofcell) source \<noteq> []")
    case True
    then have eq: "endofcell_loop source endofcell = endofcell_loop source (endofcell @ ''-'')"
      by (simp add: endofcell_loop.simps[of source endofcell])
    have "length (endofcell @ ''-'') \<le> length (endofcell_loop source (endofcell @ ''-''))"
      by (rule endofcell_loop_length)
    with "1.prems" k eq
    have "length (endofcell_loop source (endofcell @ ''-'')) - length (endofcell @ ''-'') < k'"
      by simp
    from "1.IH"[OF True this] True eq k show ?thesis by simp
  next
    case False
    then show ?thesis using k by (simp add: endofcell_loop.simps[of source endofcell])
  qed
qed

lemma endofcell_loop_within_exact:
  "endofcell_loop_within k source endofcell = Some r \<Longrightarrow>
   r = endofcell_loop source endofcell \<and> length r - length endofcell < k"
proof (induction k source endofcell rule: endofcell_loop_within.induct)
  case (1 source endofcell)
  then show ?case by simp
next
  case (2 k source endofcell)
  show ?case
  proof (cases "filter (endofcell_re_match endofcell) source \<noteq> []")
    case True
    with "2.prems" have "endofcell_loop_within k source (endofcell @ ''-'') = Some r" by simp
    from "2.IH"[OF True this] True show ?thesis
      by (auto simp: endofcell_loop.simps[of source endofcell])
  next
    case False
    then have "endofcell_loop source endofcell = endofcell"
      by (simp add: endofcell_loop.simps[of source endofcell])
    with False "2.prems" show ?thesis by auto
  qed
qed

lemma exact_line_collides:
  "''# '' @ e \<in> set source \<Longrightarrow> collides source e"
  unfolding collides_def list_ex_iff
  by (rule bexI[of _ "''# '' @ e"]) (simp_all add: endofcell_re_match_def startswith_def)

text \<open>
  C2 (as amended). \<open>py_endofcell_marker\<close> returns the shortest token of the sequence \<open>-\<close>,
  \<open>--\<close>, \<open>---\<close>, ... with which no line of the source collides, a line colliding with a
  token when it is \<open>#\<close>, one space, the token, and then spaces only. In particular: on a
  source with no line colliding with \<open>-\<close> it returns \<open>-\<close>; on a source with a line exactly
  \<open># -\<close> and no line colliding with \<open>--\<close> it returns \<open>--\<close>; on a source with the lines
  \<open># -\<close> and \<open># --\<close> and no line colliding with \<open>---\<close> it returns \<open>---\<close>.
\<close>

theorem C2_py_endofcell_marker_shortest:
  "(\<exists>n\<ge>1. py_endofcell_marker source = dashes n \<and> \<not> collides source (dashes n) \<and>
          (\<forall>m. 1 \<le> m \<and> m < n \<longrightarrow> collides source (dashes m))) \<and>
   (\<not> collides source ''-'' \<longrightarrow> py_endofcell_marker source = ''-'') \<and>
   (''# -'' \<in> set source \<and> \<not> collides source ''--'' \<longrightarrow> py_endofcell_marker source = ''--'') \<and>
   (''# -'' \<in> set source \<and> ''# --'' \<in> set source \<and> \<not> collides source ''---''
      \<longrightarrow> py_endofcell_marker source = ''---'')"
proof (intro conjI impI)
  have "dashes 1 = ''-''" by (simp add: dashes_def)
  with endofcell_loop_shortest[of "''-''" 1 source]
  show "\<exists>n\<ge>1. py_endofcell_marker source = dashes n \<and> \<not> collides source (dashes n) \<and>
          (\<forall>m. 1 \<le> m \<and> m < n \<longrightarrow> collides source (dashes m))"
    by (simp add: py_endofcell_marker_def)
next
  assume "\<not> collides source ''-''"
  then show "py_endofcell_marker source = ''-''"
    by (simp add: py_endofcell_marker_def endofcell_loop.simps[of source "''-''"] filter_collides)
next
  assume a: "''# -'' \<in> set source \<and> \<not> collides source ''--''"
  then have "collides source ''-''"
    by (rule_tac exact_line_collides) simp
  with a show "py_endofcell_marker source = ''--''"
    by (simp add: py_endofcell_marker_def endofcell_loop.simps[of source "''-''"]
        endofcell_loop.simps[of source "''--''"] filter_collides)
next
  assume a: "''# -'' \<in> set source \<and> ''# --'' \<in> set source \<and> \<not> collides source ''---''"
  then have "collides source ''-''" "collides source ''--''"
    by (simp_all add: exact_line_collides)
  with a show "py_endofcell_marker source = ''---''"
    by (simp add: py_endofcell_marker_def endofcell_loop.simps[of source "''-''"]
        endofcell_loop.simps[of source "''--''"] endofcell_loop.simps[of source "''---''"]
        filter_collides)
qed

theorem C2_py_endofcell_marker_shortest_witness:
  "py_endofcell_marker [''x = 1'', ''# -'', '''', ''# --'', ''# ----''] = ''---''"
  using C2_py_endofcell_marker_shortest[of "[''x = 1'', ''# -'', '''', ''# --'', ''# ----'']"]
  by (simp add: collides_def endofcell_re_match_def startswith_def is_space_def)

theorem C2_py_endofcell_marker_counterexample:
  "''# -'' \<notin> set [''# - ''] \<and> ''# --'' \<notin> set [''# - ''] \<and>
   py_endofcell_marker [''# - ''] = ''--'' \<and>
   ''# -'' \<in> set [''# -'', ''# -- ''] \<and> ''# --'' \<notin> set [''# -'', ''# -- ''] \<and>
   py_endofcell_marker [''# -'', ''# -- ''] = ''---'' \<and>
   ''# -'' \<in> set [''# -'', ''# --'', ''# ---''] \<and> ''# --'' \<in> set [''# -'', ''# --'', ''# ---''] \<and>
   py_endofcell_marker [''# -'', ''# --'', ''# ---''] = ''----''"
  by (simp add: py_endofcell_marker_def endofcell_loop.simps[of _ "''-''"]
      endofcell_loop.simps[of _ "''--''"] endofcell_loop.simps[of _ "''---''"]
      endofcell_loop.simps[of _ "''----''"] endofcell_re_match_def startswith_def is_space_def)

text \<open>
  C3. The loop of \<open>py_endofcell_marker\<close> ends on every source: run with a bound of (number
  of colliding lines) + 1 iterations it returns, with the token of the unbounded loop, and
  the token is collision-free. The loop makes as many iterations as the token has
  characters: a bound of \<open>k\<close> iterations is enough exactly when the token has at most \<open>k\<close>
  characters. A colliding line is a line that collides with some token of the sequence.
\<close>

theorem C3_py_endofcell_marker_terminates:
  "py_endofcell_marker_within (length (filter colliding_line source) + 1) source
     = Some (py_endofcell_marker source) \<and>
   \<not> collides source (py_endofcell_marker source) \<and>
   length (py_endofcell_marker source) \<le> length (filter colliding_line source) + 1 \<and>
   (py_endofcell_marker_within k source = Some (py_endofcell_marker source)
      \<longleftrightarrow> length (py_endofcell_marker source) \<le> k) \<and>
   (colliding_line l \<longleftrightarrow> (\<exists>n\<ge>1. endofcell_re_match (dashes n) l))"
proof -
  from endofcell_loop_shortest[of "''-''" 1 source] obtain n
    where n: "1 \<le> n" "py_endofcell_marker source = dashes n" "\<not> collides source (dashes n)"
      "\<forall>m. 1 \<le> m \<and> m < n \<longrightarrow> collides source (dashes m)"
    by (auto simp: py_endofcell_marker_def dashes_def)
  from n(4) have b: "n - 1 \<le> length (filter colliding_line source)"
    by (rule tested_tokens_bound)
  have len: "length (py_endofcell_marker source) = n"
    using n(2) by (simp add: dashes_def)
  have enough: "py_endofcell_marker_within j source = Some (py_endofcell_marker source)"
    if "n \<le> j" for j
  proof -
    have "length (endofcell_loop source ''-'') - length ''-'' < j"
      using len n(1) that by (simp add: py_endofcell_marker_def)
    then show ?thesis
      unfolding py_endofcell_marker_within_def py_endofcell_marker_def
      by (rule endofcell_loop_within_enough)
  qed
  have needed: "n \<le> k"
    if "py_endofcell_marker_within k source = Some (py_endofcell_marker source)"
  proof -
    from that have "length (py_endofcell_marker source) - length ''-'' < k"
      unfolding py_endofcell_marker_within_def
      by (auto dest: endofcell_loop_within_exact)
    with len show ?thesis by simp
  qed
  have 1: "py_endofcell_marker_within (length (filter colliding_line source) + 1) source
     = Some (py_endofcell_marker source)"
    using b by (intro enough) simp
  have 2: "py_endofcell_marker_within k source = Some (py_endofcell_marker source)
      \<longleftrightarrow> length (py_endofcell_marker source) \<le> k"
    using enough needed len by auto
  from 1 2 n(2,3) len b colliding_line_iff[of l] show ?thesis by simp
qed

theorem C3_py_endofcell_marker_terminates_witness:
  "py_endofcell_marker_within 3 [''# -'', ''a'', ''# --  ''] = Some ''---'' \<and>
   py_endofcell_marker [''# -'', ''a'', ''# --  ''] = ''---''"
proof -
  let ?src = "[''# -'', ''a'', ''# --  '']"
  have c: "length (filter colliding_line ?src) + 1 = 3"
    by (simp add: colliding_line_def startswith_def is_space_def)
  from C3_py_endofcell_marker_terminates[of ?src]
  have "py_endofcell_marker_within (length (filter colliding_line ?src) + 1) ?src
          = Some (py_endofcell_marker ?src)"
    by (rule conjunct1)
  then have w: "py_endofcell_marker_within 3 ?src = Some (py_endofcell_marker ?src)"
    by (simp only: c)
  have e: "py_endofcell_marker_within 3 ?src = Some ''---''"
    by (simp add: py_endofcell_marker_within_def numeral_3_eq_3 endofcell_re_match_def
        startswith_def is_space_def)
  from w e have "py_endofcell_marker ?src = ''---''" by simp
  with e show ?thesis by simp
qed

section \<open>Properties of the line split\<close>

lemma splitlines_from_nonempty:
  "cur \<noteq> [] \<or> s \<noteq> [] \<Longrightarrow> splitlines_from cur s \<noteq> []"
  by (induction cur s rule: splitlines_from.induct) auto

lemma cell_source_nonempty: "cell_source cell \<noteq> []"
  by (simp add: cell_source_def Let_def splitlines_def splitlines_from_nonempty)

lemma length_markdown_escape: "length (markdown_escape self source) = length source"
  by (simp add: markdown_escape_def)

lemma CellExporter_source:
  "CellExporter env cell default_language ext = Inr e \<Longrightarrow> self_source e = cell_source cell"
  by (auto simp: CellExporter_def Let_def split: if_splits sum.splits)

lemma join_Cons: "ls \<noteq> [] \<Longrightarrow> join sep (l # ls) = l @ sep @ join sep ls"
  by (cases ls) simp_all

lemma endswith_single: "endswith s [c] \<longleftrightarrow> s \<noteq> [] \<and> last s = c"
  by (cases s rule: rev_cases) (auto simp: endswith_def)

lemma linebreak_LF: "is_linebreak LF"
  by (simp add: is_linebreak_def LF_def)

lemma linebreak_CR: "is_linebreak CR" "CR \<noteq> LF"
  by (simp_all add: is_linebreak_def LF_def CR_def)

lemma join_splitlines_from:
  "\<forall>c\<in>set s. is_linebreak c \<longrightarrow> c = LF \<Longrightarrow>
   join [LF] (splitlines_from cur s @ trailing cur s) = rev cur @ s"
proof (induction cur s rule: splitlines_from.induct)
  case (1 cur)
  then show ?case by (simp add: trailing_def)
next
  case (2 cur c)
  then show ?case using linebreak_LF by (auto simp: trailing_def)
next
  case (3 cur c d s)
  have nocr: "c \<noteq> CR"
    using "3.prems" linebreak_CR by auto
  show ?case
  proof (cases "is_linebreak c")
    case True
    with "3.prems" have c: "c = LF" by simp
    have t: "trailing cur (c # d # s) = trailing [] (d # s)"
      by (simp add: trailing_def)
    have ne: "splitlines_from [] (d # s) @ trailing [] (d # s) \<noteq> []"
      by (simp add: splitlines_from_nonempty)
    have ih: "join [LF] (splitlines_from [] (d # s) @ trailing [] (d # s)) = rev [] @ d # s"
      using "3.IH"(2) nocr True "3.prems" by simp
    have "splitlines_from cur (c # d # s) = rev cur # splitlines_from [] (d # s)"
      using nocr True by simp
    then show ?thesis
      using t ne ih c by (simp add: join_Cons)
  next
    case False
    have t: "trailing cur (c # d # s) = trailing (c # cur) (d # s)"
      by (simp add: trailing_def)
    have ih: "join [LF] (splitlines_from (c # cur) (d # s) @ trailing (c # cur) (d # s))
               = rev (c # cur) @ d # s"
      using "3.IH"(3) nocr False "3.prems" by simp
    have "splitlines_from cur (c # d # s) = splitlines_from (c # cur) (d # s)"
      using nocr False by simp
    then show ?thesis using t ih by simp
  qed
qed

lemma join_cell_source:
  assumes "\<forall>c\<in>set (c_source cell). is_linebreak c \<longrightarrow> c = LF"
  shows "join [LF] (cell_source cell) = c_source cell"
proof -
  have "cell_source cell = splitlines_from [] (c_source cell) @ trailing [] (c_source cell)"
    by (simp add: cell_source_def Let_def splitlines_def trailing_def endswith_single)
  with join_splitlines_from[OF assms, of "[]"] show ?thesis by simp
qed

text \<open>
  C6 (as amended). \<open>cell_source\<close> gives one empty line for an empty source, the line split
  plus one empty line for a source that ends in a line feed, and the plain line split for
  any other source; and joining the result with line feeds gives the source back whenever
  the line feed is the only line boundary of \<open>str.splitlines\<close> that occurs in the source.
\<close>

theorem C6_cell_source_reversible:
  "(c_source cell = [] \<longrightarrow> cell_source cell = [[]]) \<and>
   (c_source cell \<noteq> [] \<and> last (c_source cell) = LF
      \<longrightarrow> cell_source cell = splitlines (c_source cell) @ [[]]) \<and>
   (c_source cell \<noteq> [] \<and> last (c_source cell) \<noteq> LF
      \<longrightarrow> cell_source cell = splitlines (c_source cell)) \<and>
   ((\<forall>c\<in>set (c_source cell). is_linebreak c \<longrightarrow> c = LF)
      \<longrightarrow> join [LF] (cell_source cell) = c_source cell)"
proof (intro conjI impI)
  assume "c_source cell = []"
  then show "cell_source cell = [[]]" by (simp add: cell_source_def)
next
  assume "c_source cell \<noteq> [] \<and> last (c_source cell) = LF"
  then show "cell_source cell = splitlines (c_source cell) @ [[]]"
    by (simp add: cell_source_def Let_def endswith_single)
next
  assume "c_source cell \<noteq> [] \<and> last (c_source cell) \<noteq> LF"
  then show "cell_source cell = splitlines (c_source cell)"
    by (simp add: cell_source_def Let_def endswith_single)
next
  assume "\<forall>c\<in>set (c_source cell). is_linebreak c \<longrightarrow> c = LF"
  then show "join [LF] (cell_source cell) = c_source cell"
    by (rule join_cell_source)
qed

theorem C6_cell_source_reversible_witness:
  "cell_source \<lparr>c_cell_type = ''code'', c_source = [CHR ''a'', LF, LF, CHR ''b'', LF], c_metadata = []\<rparr>
     = [''a'', '''', ''b'', ''''] \<and>
   join [LF] [''a'', '''', ''b'', ''''] = [CHR ''a'', LF, LF, CHR ''b'', LF]"
proof -
  let ?c = "\<lparr>c_cell_type = ''code'', c_source = [CHR ''a'', LF, LF, CHR ''b'', LF], c_metadata = []\<rparr>"
  have s: "splitlines [CHR ''a'', LF, LF, CHR ''b'', LF] = [''a'', '''', ''b'']"
    by (simp add: splitlines_def is_linebreak_def LF_def CR_def)
  have l: "\<forall>c\<in>set (c_source ?c). is_linebreak c \<longrightarrow> c = LF"
    by (simp add: is_linebreak_def LF_def)
  have j: "join [LF] (cell_source ?c) = c_source ?c"
    using C6_cell_source_reversible[of ?c] l by blast
  have "cell_source ?c = splitlines (c_source ?c) @ [[]]"
    using C6_cell_source_reversible[of ?c] by simp
  with s have cs: "cell_source ?c = [''a'', '''', ''b'', '''']"
    by simp
  from j show ?thesis by (simp add: cs)
qed

theorem C6_cell_source_counterexample:
  "is_linebreak (last [CHR ''a'', CR]) \<and>
   cell_source \<lparr>c_cell_type = ''code'', c_source = [CHR ''a'', CR], c_metadata = []\<rparr> = [''a''] \<and>
   splitlines [CHR ''a'', CR] @ [[]] = [''a'', ''''] \<and>
   join [LF] (cell_source \<lparr>c_cell_type = ''code'', c_source = [CHR ''a'', CR], c_metadata = []\<rparr>)
     \<noteq> [CHR ''a'', CR]"
  by (simp add: cell_source_def endswith_def splitlines_def is_linebreak_def LF_def CR_def)

section \<open>Properties of the exporter\<close>

lemma startswith_comment_line: "startswith (comment_line line) ''#''"
  by (simp add: comment_line_def startswith_def)

lemma markdown_unescape_escape:
  "markdown_unescape self (markdown_escape self source) = source"
proof -
  have r: "map (strip_prefix (''#'' @ [apostrophe]))
        (map (\<lambda>line. if line \<noteq> [] then ''#'' @ [apostrophe] @ '' '' @ line
                        else ''#'' @ [apostrophe]) source) = source"
    unfolding map_map comp_def
    by (rule map_idI) (simp add: strip_prefix_def startswith_def)
  have p: "map (strip_prefix ''#'')
        (map (\<lambda>line. if line \<noteq> [] then ''# '' @ line else ''#'') source) = source"
    unfolding map_map comp_def
    by (rule map_idI) (simp add: strip_prefix_def startswith_def)
  show ?thesis
  proof (cases "self_ext self = ''.Rmd''")
    case True
    then show ?thesis by (simp add: markdown_unescape_def markdown_escape_def)
  next
    case False
    show ?thesis
    proof (cases "self_ext self = ''.R''")
      case True
      with False have "markdown_unescape self (markdown_escape self source)
          = map (strip_prefix (''#'' @ [apostrophe]))
              (map (\<lambda>line. if line \<noteq> [] then ''#'' @ [apostrophe] @ '' '' @ line
                              else ''#'' @ [apostrophe]) source)"
        by (simp only: markdown_unescape_def markdown_escape_def if_True if_False simp_thms)
      with r show ?thesis by (simp only:)
    next
      case nr: False
      with False have "markdown_unescape self (markdown_escape self source)
          = map (strip_prefix ''#'')
              (map (\<lambda>line. if line \<noteq> [] then ''# '' @ line else ''#'') source)"
        by (simp only: markdown_unescape_def markdown_escape_def if_True if_False simp_thms)
      with p show ?thesis by (simp only:)
    qed
  qed
qed

lemma map_of_code_to_r:
  "k \<noteq> ''eval'' \<Longrightarrow> map_of (snd (code_to_r env source metadata)) k = map_of metadata k"
  by (simp add: code_to_r_def Let_def update_conv' split: sum.splits)

lemma map_of_code_to_py:
  "k \<noteq> ''endofcell'' \<Longrightarrow>
   map_of (snd (code_to_py env source metadata padlines)) k = map_of metadata k"
  by (simp add: code_to_py_def Let_def delete_conv' split: sum.splits option.splits)

lemma py_iadd_number: "is_number v \<Longrightarrow> \<exists>n. py_iadd v k = Inr (VInt n)"
  by (cases v) (simp_all add: is_number_def py_iadd_def)

lemma CellExporter_returns:
  assumes "has_key (c_metadata cell) ''skipline'' \<or> has_key (c_metadata cell) ''noskipline''
           \<longrightarrow> is_number (dict_get (c_metadata cell) ''skiplines'' (VInt 1))"
  shows "\<exists>e. CellExporter env cell default_language ext = Inr e"
proof (cases "has_key (c_metadata cell) ''skipline''")
  case True
  with assms obtain n where "py_iadd (dict_get (c_metadata cell) ''skiplines'' (VInt 1)) 1 = Inr (VInt n)"
    using py_iadd_number by blast
  with True show ?thesis
    by (simp add: CellExporter_def Let_def py_iadd_def)
next
  case False
  show ?thesis
  proof (cases "has_key (c_metadata cell) ''noskipline''")
    case True
    with assms obtain n
      where "py_iadd (dict_get (c_metadata cell) ''skiplines'' (VInt 1)) (- 1) = Inr (VInt n)"
      using py_iadd_number by blast
    with True False show ?thesis
      by (simp add: CellExporter_def Let_def)
  next
    case nn: False
    with False show ?thesis
      by (simp add: CellExporter_def Let_def)
  qed
qed

lemma CellExporter_metadata:
  "CellExporter env cell default_language ext = Inr e \<Longrightarrow>
   self_cell_type e = c_cell_type cell \<and>
   self_metadata e =
     (if c_cell_type cell = ''raw'' \<and> \<not> has_key (filter_metadata env (c_metadata cell)) ''active''
      then AList.update ''active'' (VStr []) (filter_metadata env (c_metadata cell))
      else filter_metadata env (c_metadata cell))"
  by (auto simp: CellExporter_def Let_def split: if_splits sum.splits)

text \<open>
  C1. \<open>explicit_start_marker\<close> is true exactly when the metadata of the exporter is not
  empty, or every line of the original source of the cell starts with \<open>#\<close>, the prefix that
  the commenting of an inactive cell puts on every line, or the decoder \<open>code_to_cell\<close>,
  probing the given source, reads a number of lines other than its length.
\<close>

theorem C1_explicit_start_marker_iff:
  "(explicit_start_marker env self source \<longleftrightarrow>
      self_metadata self \<noteq> []
      \<or> (\<forall>line\<in>set (self_source self). startswith line ''#'')
      \<or> snd (code_to_cell env self source False) \<noteq> length source) \<and>
   startswith (comment_line line) ''#''"
proof -
  have "explicit_start_marker env self source \<longleftrightarrow>
      self_metadata self \<noteq> []
      \<or> (\<forall>line\<in>set (self_source self). startswith line ''#'')
      \<or> snd (code_to_cell env self source False) \<noteq> length source"
    by (auto simp: explicit_start_marker_def list_all_iff)
  then show ?thesis
    using startswith_comment_line by simp
qed

theorem C1_explicit_start_marker_iff_witness:
  "\<not> explicit_start_marker example_env
       \<lparr>self_ext = ''.py'', self_cell_type = ''code'', self_source = [''x = 1'', ''# done''],
        self_metadata = [], self_language = Some ''python'', self_padlines = VInt 0,
        self_skiplines = VInt 1\<rparr> [''x = 1'', ''# done''] \<and>
   explicit_start_marker example_env
       \<lparr>self_ext = ''.py'', self_cell_type = ''code'', self_source = [''# a'', ''#b''],
        self_metadata = [], self_language = Some ''python'', self_padlines = VInt 0,
        self_skiplines = VInt 1\<rparr> [''# a'', ''#b'']"
  using C1_explicit_start_marker_iff[of example_env
       "\<lparr>self_ext = ''.py'', self_cell_type = ''code'', self_source = [''x = 1'', ''# done''],
        self_metadata = [], self_language = Some ''python'', self_padlines = VInt 0,
        self_skiplines = VInt 1\<rparr>" "[''x = 1'', ''# done'']" "[]"]
    C1_explicit_start_marker_iff[of example_env
       "\<lparr>self_ext = ''.py'', self_cell_type = ''code'', self_source = [''# a'', ''#b''],
        self_metadata = [], self_language = Some ''python'', self_padlines = VInt 0,
        self_skiplines = VInt 1\<rparr>" "[''# a'', ''#b'']" "[]"]
  by (simp add: startswith_def example_env_def)

text \<open>
  C4 (as amended). For a metadata mapping that is not empty, \<open>code_to_py\<close> reads
  \<open>metadata['endofcell']\<close> with no default: when the key is absent it raises \<open>KeyError\<close> and
  leaves the metadata as it is. When the key is there, it deletes the key from the metadata
  if its value is \<open>-\<close> (any other value stays, and is serialized with the rest), and the
  metadata is left so whether the call then returns or raises. It returns when the
  serializer returns the options and \<open>padlines\<close> is an integer with
  \<open>-2^63 \<le> padlines < 2^63\<close> (or a boolean), running out of memory aside: exactly the start line \<open># + \<close> plus the
  options, the source lines, \<open>padlines\<close> empty lines (none for a negative \<open>padlines\<close>), and
  the end line \<open># \<close> plus the value of \<open>endofcell\<close>, which for a string is the string
  itself. It raises the error of the serializer when the serializer raises, \<open>OverflowError\<close>
  when \<open>padlines\<close> is an integer outside that range, and \<open>TypeError\<close> when \<open>padlines\<close> is
  neither an integer nor a boolean.
\<close>

theorem C4_code_to_py_markers:
  "metadata \<noteq> [] \<longrightarrow>
   (map_of metadata ''endofcell'' = None \<longrightarrow>
      code_to_py env source metadata padlines = (Inl (KeyError ''endofcell''), metadata)) \<and>
   (map_of metadata ''endofcell'' = Some endofcell \<longrightarrow>
      snd (code_to_py env source metadata padlines) =
        (if endofcell = VStr ''-'' then AList.delete ''endofcell'' metadata else metadata)) \<and>
   (map_of metadata ''endofcell'' = Some endofcell \<and>
    metadata_to_json_options env
      (if endofcell = VStr ''-'' then AList.delete ''endofcell'' metadata else metadata)
      = Inr options \<and>
    padlines = VInt p \<and> - (2 ^ 63) \<le> p \<and> p < 2 ^ 63 \<longrightarrow>
      code_to_py env source metadata padlines =
        (Inr ([''# + '' @ options] @ source @ replicate (nat p) [] @
              [''# '' @ format_field env endofcell]),
         if endofcell = VStr ''-'' then AList.delete ''endofcell'' metadata else metadata)) \<and>
   (map_of metadata ''endofcell'' = Some endofcell \<and>
    metadata_to_json_options env
      (if endofcell = VStr ''-'' then AList.delete ''endofcell'' metadata else metadata)
      = Inr options \<and>
    padlines = VBool b \<longrightarrow>
      fst (code_to_py env source metadata padlines) =
        Inr ([''# + '' @ options] @ source @ (if b then [[]] else []) @
             [''# '' @ format_field env endofcell])) \<and>
   (map_of metadata ''endofcell'' = Some endofcell \<and>
    metadata_to_json_options env
      (if endofcell = VStr ''-'' then AList.delete ''endofcell'' metadata else metadata)
      = Inr options \<and>
    padlines = VInt p \<and> (p < - (2 ^ 63) \<or> 2 ^ 63 \<le> p) \<longrightarrow>
      fst (code_to_py env source metadata padlines) = Inl OverflowError) \<and>
   (map_of metadata ''endofcell'' = Some endofcell \<and>
    metadata_to_json_options env
      (if endofcell = VStr ''-'' then AList.delete ''endofcell'' metadata else metadata)
      = Inr options \<and>
    \<not> is_number padlines \<longrightarrow>
      fst (code_to_py env source metadata padlines) = Inl TypeError) \<and>
   (map_of metadata ''endofcell'' = Some endofcell \<and>
    metadata_to_json_options env
      (if endofcell = VStr ''-'' then AList.delete ''endofcell'' metadata else metadata)
      = Inl err \<longrightarrow>
      fst (code_to_py env source metadata padlines) = Inl err) \<and>
   format_field env (VStr token) = token"
proof (intro impI conjI)
  assume "metadata \<noteq> []" and "map_of metadata ''endofcell'' = None"
  then show "code_to_py env source metadata padlines = (Inl (KeyError ''endofcell''), metadata)"
    by (simp add: code_to_py_def)
next
  assume "metadata \<noteq> []" and "map_of metadata ''endofcell'' = Some endofcell"
  then show "snd (code_to_py env source metadata padlines) =
        (if endofcell = VStr ''-'' then AList.delete ''endofcell'' metadata else metadata)"
    by (simp add: code_to_py_def Let_def split: sum.splits)
next
  assume ne: "metadata \<noteq> []"
    and h: "map_of metadata ''endofcell'' = Some endofcell \<and>
      metadata_to_json_options env
        (if endofcell = VStr ''-'' then AList.delete ''endofcell'' metadata else metadata)
        = Inr options \<and>
      padlines = VInt p \<and> - (2 ^ 63) \<le> p \<and> p < 2 ^ 63"
  then have pad: "py_repeat [[]] padlines = Inr (replicate (nat p) [])"
    by (simp add: py_repeat_def)
  from ne h pad
  show "code_to_py env source metadata padlines =
        (Inr ([''# + '' @ options] @ source @ replicate (nat p) [] @
              [''# '' @ format_field env endofcell]),
         if endofcell = VStr ''-'' then AList.delete ''endofcell'' metadata else metadata)"
    by (simp add: code_to_py_def Let_def)
next
  assume ne: "metadata \<noteq> []"
    and h: "map_of metadata ''endofcell'' = Some endofcell \<and>
      metadata_to_json_options env
        (if endofcell = VStr ''-'' then AList.delete ''endofcell'' metadata else metadata)
        = Inr options \<and>
      padlines = VBool b"
  then have pad: "py_repeat [[]] padlines = Inr (if b then [[]] else [])"
    by (simp add: py_repeat_def)
  from ne h pad
  show "fst (code_to_py env source metadata padlines) =
        Inr ([''# + '' @ options] @ source @ (if b then [[]] else []) @
             [''# '' @ format_field env endofcell])"
    by (simp add: code_to_py_def Let_def)
next
  assume ne: "metadata \<noteq> []"
    and h: "map_of metadata ''endofcell'' = Some endofcell \<and>
      metadata_to_json_options env
        (if endofcell = VStr ''-'' then AList.delete ''endofcell'' metadata else metadata)
        = Inr options \<and>
      padlines = VInt p \<and> (p < - (2 ^ 63) \<or> 2 ^ 63 \<le> p)"
  then have pad: "py_repeat [[]] padlines = Inl OverflowError"
    by (auto simp: py_repeat_def)
  from ne h pad
  show "fst (code_to_py env source metadata padlines) = Inl OverflowError"
    by (simp add: code_to_py_def Let_def)
next
  assume ne: "metadata \<noteq> []"
    and h: "map_of metadata ''endofcell'' = Some endofcell \<and>
      metadata_to_json_options env
        (if endofcell = VStr ''-'' then AList.delete ''endofcell'' metadata else metadata)
        = Inr options \<and>
      \<not> is_number padlines"
  then have pad: "py_repeat [[]] padlines = Inl TypeError"
    by (cases padlines) (simp_all add: py_repeat_def is_number_def)
  from ne h pad
  show "fst (code_to_py env source metadata padlines) = Inl TypeError"
    by (simp add: code_to_py_def Let_def)
next
  assume ne: "metadata \<noteq> []"
    and h: "map_of metadata ''endofcell'' = Some endofcell \<and>
      metadata_to_json_options env
        (if endofcell = VStr ''-'' then AList.delete ''endofcell'' metadata else metadata)
        = Inl err"
  then show "fst (code_to_py env source metadata padlines) = Inl err"
    by (simp add: code_to_py_def Let_def)
next
  show "format_field env (VStr token) = token"
    by (simp add: format_field_def)
qed

theorem C4_code_to_py_markers_witness:
  "code_to_py example_env [''x = 1'', ''''] [(''tags'', VList []), (''endofcell'', VStr ''-'')] (VInt 2)
     = (Inr [''# + tags'', ''x = 1'', '''', '''', '''', ''# -''], [(''tags'', VList [])]) \<and>
   code_to_py example_env [''# -''] [(''endofcell'', VStr ''--'')] (VInt (- 1))
     = (Inr [''# + endofcell'', ''# -'', ''# --''], [(''endofcell'', VStr ''--'')]) \<and>
   fst (code_to_py example_env [''x = 1''] [(''endofcell'', VStr ''-'')] (VInt (2 ^ 63)))
     = Inl OverflowError"
proof -
  let ?m1 = "[(''tags'', VList []), (''endofcell'', VStr ''-'')]"
  let ?m2 = "[(''endofcell'', VStr ''--'')]"
  let ?m3 = "[(''endofcell'', VStr ''-'')]"
  note t1 = C4_code_to_py_markers[where metadata = ?m1
      and endofcell = "VStr ''-''" and env = example_env and options = "''tags''"
      and padlines = "VInt 2" and p = 2 and source = "[''x = 1'', '''']" and token = "''-''"]
  note t2 = C4_code_to_py_markers[where metadata = ?m2
      and endofcell = "VStr ''--''" and env = example_env and options = "''endofcell''"
      and padlines = "VInt (- 1)" and p = "- 1" and source = "[''# -'']" and token = "''--''"]
  note t3 = C4_code_to_py_markers[where metadata = ?m3
      and endofcell = "VStr ''-''" and env = example_env and options = "[]"
      and padlines = "VInt (2 ^ 63)" and p = "2 ^ 63" and source = "[''x = 1'']"]
  have ne: "?m1 \<noteq> []" "?m2 \<noteq> []" "?m3 \<noteq> []" by simp_all
  note a1 = conjunct1[OF conjunct2[OF conjunct2[OF mp[OF t1 ne(1)]]]]
  note a2 = conjunct1[OF conjunct2[OF conjunct2[OF mp[OF t2 ne(2)]]]]
  note a3 = conjunct1[OF conjunct2[OF conjunct2[OF conjunct2[OF conjunct2[OF mp[OF t3 ne(3)]]]]]]
  have 1: "code_to_py example_env [''x = 1'', ''''] ?m1 (VInt 2)
     = (Inr [''# + tags'', ''x = 1'', '''', '''', '''', ''# -''], [(''tags'', VList [])])"
    using a1 by (simp add: example_env_def format_field_def numeral_2_eq_2)
  have 2: "code_to_py example_env [''# -''] ?m2 (VInt (- 1))
     = (Inr [''# + endofcell'', ''# -'', ''# --''], ?m2)"
    using a2 by (simp add: example_env_def format_field_def)
  have 3: "fst (code_to_py example_env [''x = 1''] ?m3 (VInt (2 ^ 63))) = Inl OverflowError"
    using a3 by (simp add: example_env_def)
  from 1 2 3 show ?thesis by simp
qed

theorem C4_code_to_py_counterexample:
  "[(''tags'', VList [])] \<noteq> [] \<and>
   code_to_py example_env [''x = 1''] [(''tags'', VList [])] (VInt 0)
     = (Inl (KeyError ''endofcell''), [(''tags'', VList [])])"
  by (simp add: code_to_py_def)

text \<open>
  C5. With an empty metadata mapping \<open>code_to_py\<close> returns the source as it is, whatever
  the source and the value of \<open>padlines\<close>: no start line, no padding and no end line, and
  the metadata stays empty.
\<close>

theorem C5_code_to_py_empty_metadata:
  "code_to_py env source [] padlines = (Inr source, [])"
  by (simp add: code_to_py_def)

theorem C5_code_to_py_empty_metadata_witness:
  "code_to_py example_env [''x = 1'', '''', ''y = 2''] [] (VStr ''three'')
     = (Inr [''x = 1'', '''', ''y = 2''], [])"
  by (rule C5_code_to_py_empty_metadata)

text \<open>
  C7. For the dialects \<open>.R\<close> and \<open>.py\<close>, when the cell is active by \<open>is_active\<close> and its
  language is not the language of the dialect (\<open>R\<close> for \<open>.R\<close>, \<open>python\<close> for \<open>.py\<close>),
  \<open>code_to_text\<close> sets \<open>active\<close> to false and records \<open>metadata['active'] = 'ipynb'\<close> and
  \<open>metadata['language']\<close>, the language of the cell. Both keys are still there, with these
  values, when \<open>code_to_text\<close> is done, and the cell is encoded as an inactive one: every
  line of its source commented, and no magic escaped.
\<close>

theorem C7_code_to_text_forces_inactive:
  "(self_ext self = ''.R'' \<or> self_ext self = ''.py'') \<and>
   is_active env (self_ext self) (self_metadata self) \<and>
   self_language self \<noteq> Some (if self_ext self = ''.R'' then ''R'' else ''python'')
   \<longrightarrow>
   code_to_text_active env self =
     (False, self\<lparr>self_metadata :=
                AList.update ''language'' (language_value (self_language self))
                  (AList.update ''active'' (VStr ''ipynb'') (self_metadata self))\<rparr>) \<and>
   map_of (self_metadata (snd (code_to_text env self))) ''active'' = Some (VStr ''ipynb'') \<and>
   map_of (self_metadata (snd (code_to_text env self))) ''language''
     = Some (language_value (self_language self)) \<and>
   (self_ext self = ''.R'' \<longrightarrow>
      fst (code_to_text env self) =
        fst (code_to_r env (map comment_line (self_source self))
               (AList.update ''language'' (language_value (self_language self))
                  (AList.update ''active'' (VStr ''ipynb'') (self_metadata self))))) \<and>
   (self_ext self = ''.py'' \<longrightarrow>
      fst (code_to_text env self) =
        fst (code_to_py env (map comment_line (self_source self))
               (AList.update ''endofcell''
                  (VStr (py_endofcell_marker (map comment_line (self_source self))))
                  (AList.update ''language'' (language_value (self_language self))
                     (AList.update ''active'' (VStr ''ipynb'') (self_metadata self))))
               (self_padlines self)))"
proof (intro impI)
  let ?md = "AList.update ''language'' (language_value (self_language self))
               (AList.update ''active'' (VStr ''ipynb'') (self_metadata self))"
  let ?src = "map comment_line (self_source self)"
  assume h: "(self_ext self = ''.R'' \<or> self_ext self = ''.py'') \<and>
     is_active env (self_ext self) (self_metadata self) \<and>
     self_language self \<noteq> Some (if self_ext self = ''.R'' then ''R'' else ''python'')"
  then have act: "code_to_text_active env self = (False, self\<lparr>self_metadata := ?md\<rparr>)"
    by (auto simp: code_to_text_active_def Let_def)
  have md_ne: "?md \<noteq> []"
    by (metis update_nonempty)
  have md_active: "map_of ?md ''active'' = Some (VStr ''ipynb'')"
    and md_language: "map_of ?md ''language'' = Some (language_value (self_language self))"
    by (simp_all add: update_conv')
  have esm: "explicit_start_marker env (self\<lparr>self_metadata := ?md\<rparr>) ?src"
    using md_ne by (simp add: explicit_start_marker_def)
  let ?md2 = "AList.update ''endofcell'' (VStr (py_endofcell_marker ?src)) ?md"
  have R: "self_ext self = ''.R'' \<Longrightarrow>
      code_to_text env self =
        (fst (code_to_r env ?src ?md),
         self\<lparr>self_metadata := snd (code_to_r env ?src ?md)\<rparr>)"
    using act by (simp add: code_to_text_def Let_def split_beta)
  have P: "self_ext self = ''.py'' \<Longrightarrow>
      code_to_text env self =
        (fst (code_to_py env ?src ?md2 (self_padlines self)),
         self\<lparr>self_metadata := snd (code_to_py env ?src ?md2 (self_padlines self))\<rparr>)"
    using act esm by (simp add: code_to_text_def Let_def split_beta)
  have fin_active: "map_of (self_metadata (snd (code_to_text env self))) ''active''
      = Some (VStr ''ipynb'')"
  proof (cases "self_ext self = ''.R''")
    case True
    then show ?thesis using md_active by (simp add: R map_of_code_to_r)
  next
    case False
    with h have "self_ext self = ''.py''" by simp
    then show ?thesis using md_active by (simp add: P map_of_code_to_py update_conv')
  qed
  have fin_language: "map_of (self_metadata (snd (code_to_text env self))) ''language''
      = Some (language_value (self_language self))"
  proof (cases "self_ext self = ''.R''")
    case True
    then show ?thesis using md_language by (simp add: R map_of_code_to_r)
  next
    case False
    with h have "self_ext self = ''.py''" by simp
    then show ?thesis using md_language by (simp add: P map_of_code_to_py update_conv')
  qed
  show "code_to_text_active env self = (False, self\<lparr>self_metadata := ?md\<rparr>) \<and>
   map_of (self_metadata (snd (code_to_text env self))) ''active'' = Some (VStr ''ipynb'') \<and>
   map_of (self_metadata (snd (code_to_text env self))) ''language''
     = Some (language_value (self_language self)) \<and>
   (self_ext self = ''.R'' \<longrightarrow>
      fst (code_to_text env self) = fst (code_to_r env ?src ?md)) \<and>
   (self_ext self = ''.py'' \<longrightarrow>
      fst (code_to_text env self) = fst (code_to_py env ?src ?md2 (self_padlines self)))"
    using act fin_active fin_language R P by simp
qed

theorem C7_code_to_text_forces_inactive_witness:
  "code_to_text example_env
     \<lparr>self_ext = ''.py'', self_cell_type = ''code'', self_source = [''%%R'', ''ls()''],
      self_metadata = [], self_language = Some ''R'', self_padlines = VInt 0,
      self_skiplines = VInt 1\<rparr>
   = (Inr [''# + active, language'', ''# %%R'', ''# ls()'', ''# -''],
      \<lparr>self_ext = ''.py'', self_cell_type = ''code'', self_source = [''%%R'', ''ls()''],
       self_metadata = [(''active'', VStr ''ipynb''), (''language'', VStr ''R'')],
       self_language = Some ''R'', self_padlines = VInt 0, self_skiplines = VInt 1\<rparr>)"
proof -
  let ?self = "\<lparr>self_ext = ''.py'', self_cell_type = ''code'', self_source = [''%%R'', ''ls()''],
      self_metadata = [], self_language = Some ''R'', self_padlines = VInt 0,
      self_skiplines = VInt 1\<rparr>"
  have a: "code_to_text_active example_env ?self =
     (False, ?self\<lparr>self_metadata :=
                AList.update ''language'' (language_value (self_language ?self))
                  (AList.update ''active'' (VStr ''ipynb'') (self_metadata ?self))\<rparr>)"
    using C7_code_to_text_forces_inactive[of ?self example_env]
    by (simp add: example_env_def has_key_def)
  have m: "py_endofcell_marker [''# %%R'', ''# ls()''] = ''-''"
    by (simp add: py_endofcell_marker_def endofcell_loop.simps[of _ "''-''"]
        endofcell_re_match_def startswith_def)
  show ?thesis
    unfolding code_to_text_def a
    by (simp add: Let_def language_value_def comment_line_def explicit_start_marker_def m
        code_to_py_def example_env_def py_repeat_def format_field_def)
qed

text \<open>
  C8. For a raw cell whose filtered metadata has no key \<open>active\<close>, the exporter that
  \<open>CellExporter\<close> builds has \<open>metadata['active'] = ''\<close>, and \<open>is_code\<close> is true of it. The
  exporter is built unless a legacy key (\<open>skipline\<close>, \<open>noskipline\<close>) meets a value of
  \<open>skiplines\<close> that is not a number. \<open>is_code\<close> is true exactly when the cell type is
  \<open>code\<close>, or the cell type is \<open>raw\<close> and the metadata has the key \<open>active\<close>.
\<close>

theorem C8_raw_cell_is_code:
  "(c_cell_type cell = ''raw'' \<and> \<not> has_key (filter_metadata env (c_metadata cell)) ''active'' \<and>
    CellExporter env cell default_language ext = Inr e
    \<longrightarrow> map_of (self_metadata e) ''active'' = Some (VStr '''') \<and> is_code e) \<and>
   ((has_key (c_metadata cell) ''skipline'' \<or> has_key (c_metadata cell) ''noskipline''
       \<longrightarrow> is_number (dict_get (c_metadata cell) ''skiplines'' (VInt 1)))
    \<longrightarrow> (\<exists>e'. CellExporter env cell default_language ext = Inr e')) \<and>
   (is_code self \<longleftrightarrow>
      self_cell_type self = ''code''
      \<or> (self_cell_type self = ''raw'' \<and> has_key (self_metadata self) ''active''))"
proof (intro conjI impI iffI)
  assume h: "c_cell_type cell = ''raw'' \<and>
    \<not> has_key (filter_metadata env (c_metadata cell)) ''active'' \<and>
    CellExporter env cell default_language ext = Inr e"
  then have "self_cell_type e = ''raw''"
    and "self_metadata e = AList.update ''active'' (VStr []) (filter_metadata env (c_metadata cell))"
    using CellExporter_metadata[of env cell default_language ext e] by simp_all
  then show "map_of (self_metadata e) ''active'' = Some (VStr '''')" and "is_code e"
    by (simp_all add: is_code_def has_key_def update_conv')
next
  assume "has_key (c_metadata cell) ''skipline'' \<or> has_key (c_metadata cell) ''noskipline''
       \<longrightarrow> is_number (dict_get (c_metadata cell) ''skiplines'' (VInt 1))"
  then show "\<exists>e'. CellExporter env cell default_language ext = Inr e'"
    by (rule CellExporter_returns)
next
  assume "is_code self"
  then show "self_cell_type self = ''code''
      \<or> (self_cell_type self = ''raw'' \<and> has_key (self_metadata self) ''active'')"
    by (simp add: is_code_def split: if_splits)
next
  assume "self_cell_type self = ''code''
      \<or> (self_cell_type self = ''raw'' \<and> has_key (self_metadata self) ''active'')"
  then show "is_code self"
    by (auto simp: is_code_def)
qed

theorem C8_raw_cell_is_code_witness:
  "CellExporter example_env
     \<lparr>c_cell_type = ''raw'', c_source = ''---'', c_metadata = [(''skipline'', VBool True)]\<rparr>
     (Some ''python'') ''.py''
   = Inr \<lparr>self_ext = ''.py'', self_cell_type = ''raw'', self_source = [''---''],
          self_metadata = [(''skipline'', VBool True), (''active'', VStr '''')],
          self_language = Some ''python'', self_padlines = VInt 0, self_skiplines = VInt 2\<rparr> \<and>
   is_code \<lparr>self_ext = ''.py'', self_cell_type = ''raw'', self_source = [''---''],
          self_metadata = [(''skipline'', VBool True), (''active'', VStr '''')],
          self_language = Some ''python'', self_padlines = VInt 0, self_skiplines = VInt 2\<rparr>"
proof -
  let ?c = "\<lparr>c_cell_type = ''raw'', c_source = ''---'', c_metadata = [(''skipline'', VBool True)]\<rparr>"
  let ?e = "\<lparr>self_ext = ''.py'', self_cell_type = ''raw'', self_source = [''---''],
          self_metadata = [(''skipline'', VBool True), (''active'', VStr '''')],
          self_language = Some ''python'', self_padlines = VInt 0, self_skiplines = VInt 2\<rparr>"
  have c: "CellExporter example_env ?c (Some ''python'') ''.py'' = Inr ?e"
    by (simp add: CellExporter_def Let_def example_env_def has_key_def dict_get_def py_iadd_def
        py_or_def cell_source_def endswith_def splitlines_def is_linebreak_def LF_def)
  note imp = conjunct1[OF C8_raw_cell_is_code[of ?c example_env "Some ''python''" "''.py''" ?e]]
  have nk: "\<not> has_key (filter_metadata example_env (c_metadata ?c)) ''active''"
    by (simp add: example_env_def has_key_def)
  have "is_code ?e"
    using imp c nk by simp
  with c show ?thesis by (rule conjI)
qed

text \<open>
  C9. \<open>markdown_escape\<close> leaves the lines as they are for the dialect \<open>.Rmd\<close>; for \<open>.R\<close> it
  puts \<open>#'\<close> and a space before every line that is not empty and makes \<open>#'\<close> of an empty
  one; for every other dialect it puts \<open>#\<close> and a space before every line that is not empty
  and makes \<open>#\<close> of an empty one. In each dialect it is injective, and stripping the prefix
  from every line gives the lines back.
\<close>

theorem C9_markdown_escape_invertible:
  "(self_ext self = ''.Rmd'' \<longrightarrow> markdown_escape self source = source) \<and>
   (self_ext self = ''.R'' \<longrightarrow>
      markdown_escape self source =
        map (\<lambda>line. if line = [] then ''#'' @ [apostrophe]
                      else ''#'' @ [apostrophe] @ '' '' @ line) source) \<and>
   (self_ext self \<noteq> ''.Rmd'' \<and> self_ext self \<noteq> ''.R'' \<longrightarrow>
      markdown_escape self source =
        map (\<lambda>line. if line = [] then ''#'' else ''# '' @ line) source) \<and>
   inj (markdown_escape self) \<and>
   markdown_unescape self (markdown_escape self source) = source"
proof -
  have "inj (markdown_escape self)"
    by (rule inj_on_inverseI[where g = "markdown_unescape self"])
       (rule markdown_unescape_escape)
  moreover have "self_ext self = ''.R'' \<longrightarrow>
      markdown_escape self source =
        map (\<lambda>line. if line = [] then ''#'' @ [apostrophe]
                      else ''#'' @ [apostrophe] @ '' '' @ line) source"
    by (simp add: markdown_escape_def)
  moreover have "self_ext self \<noteq> ''.Rmd'' \<and> self_ext self \<noteq> ''.R'' \<longrightarrow>
      markdown_escape self source =
        map (\<lambda>line. if line = [] then ''#'' else ''# '' @ line) source"
    by (simp add: markdown_escape_def)
  moreover have "self_ext self = ''.Rmd'' \<longrightarrow> markdown_escape self source = source"
    by (simp add: markdown_escape_def)
  ultimately show ?thesis
    using markdown_unescape_escape by blast
qed

theorem C9_markdown_escape_invertible_witness:
  "markdown_escape
     \<lparr>self_ext = ''.R'', self_cell_type = ''markdown'', self_source = [''a'', '''', '' b''],
      self_metadata = [], self_language = None, self_padlines = VInt 0,
      self_skiplines = VInt 1\<rparr> [''a'', '''', '' b'']
   = [[CHR ''#'', apostrophe, CHR '' '', CHR ''a''], [CHR ''#'', apostrophe],
      [CHR ''#'', apostrophe, CHR '' '', CHR '' '', CHR ''b'']] \<and>
   markdown_escape
     \<lparr>self_ext = ''.py'', self_cell_type = ''markdown'', self_source = [''a'', '''', '' b''],
      self_metadata = [], self_language = None, self_padlines = VInt 0,
      self_skiplines = VInt 1\<rparr> [''a'', '''', '' b'']
   = [''# a'', ''#'', ''#  b'']"
proof -
  let ?r = "\<lparr>self_ext = ''.R'', self_cell_type = ''markdown'', self_source = [''a'', '''', '' b''],
      self_metadata = [], self_language = None, self_padlines = VInt 0,
      self_skiplines = VInt 1\<rparr>"
  let ?p = "\<lparr>self_ext = ''.py'', self_cell_type = ''markdown'', self_source = [''a'', '''', '' b''],
      self_metadata = [], self_language = None, self_padlines = VInt 0,
      self_skiplines = VInt 1\<rparr>"
  note r = conjunct1[OF conjunct2[OF C9_markdown_escape_invertible[of ?r "[''a'', '''', '' b'']"]]]
  note p = conjunct1[OF conjunct2[OF conjunct2[OF
             C9_markdown_escape_invertible[of ?p "[''a'', '''', '' b'']"]]]]
  have "markdown_escape ?r [''a'', '''', '' b'']
      = [[CHR ''#'', apostrophe, CHR '' '', CHR ''a''], [CHR ''#'', apostrophe],
         [CHR ''#'', apostrophe, CHR '' '', CHR '' '', CHR ''b'']]"
    using r by simp
  moreover have "markdown_escape ?p [''a'', '''', '' b''] = [''# a'', ''#'', ''#  b'']"
    using p by simp
  ultimately show ?thesis by (rule conjI)
qed

lemma code_to_text_active_fields:
  "self_ext (snd (code_to_text_active env self)) = self_ext self"
  "self_source (snd (code_to_text_active env self)) = self_source self"
  "self_language (snd (code_to_text_active env self)) = self_language self"
  "self_padlines (snd (code_to_text_active env self)) = self_padlines self"
  by (simp_all add: code_to_text_active_def Let_def)

lemma code_to_text_source_inactive:
  "\<not> fst (code_to_text_active env self) \<Longrightarrow>
   code_to_text_source env self =
     (if self_ext self = ''.Rmd'' then self_source self else map comment_line (self_source self))"
  using code_to_text_active_fields[of env self]
  by (simp add: code_to_text_source_def Let_def split_beta)

lemma code_to_text_source_active:
  "fst (code_to_text_active env self) \<Longrightarrow>
   code_to_text_source env self = escape_magic env (self_source self) (self_language self)"
  using code_to_text_active_fields[of env self]
  by (simp add: code_to_text_source_def Let_def split_beta)

lemma code_to_text_source_nonempty:
  assumes "self_source self \<noteq> []"
    and "fst (code_to_text_active env self) \<longrightarrow>
         escape_magic env (self_source self) (self_language self) \<noteq> []"
  shows "code_to_text_source env self \<noteq> []"
proof (cases "fst (code_to_text_active env self)")
  case True
  with assms(2) show ?thesis by (simp add: code_to_text_source_active)
next
  case False
  with assms(1) show ?thesis by (simp add: code_to_text_source_inactive)
qed

lemma code_to_text_rmd:
  "self_ext self = ''.Rmd'' \<Longrightarrow>
   fst (code_to_text env self) =
     fst (code_to_rmd env (code_to_text_source env self)
            (self_metadata (snd (code_to_text_active env self))) (self_language self))"
  using code_to_text_active_fields[of env self]
  by (simp add: code_to_text_def code_to_text_source_def Let_def split_beta)

lemma code_to_text_r:
  "self_ext self = ''.R'' \<Longrightarrow>
   fst (code_to_text env self) =
     fst (code_to_r env (code_to_text_source env self)
            (self_metadata (snd (code_to_text_active env self))))"
  using code_to_text_active_fields[of env self]
  by (simp add: code_to_text_def code_to_text_source_def Let_def split_beta)

lemma code_to_text_py:
  "self_ext self \<noteq> ''.Rmd'' \<Longrightarrow> self_ext self \<noteq> ''.R'' \<Longrightarrow>
   fst (code_to_text env self) =
     fst (code_to_py env (code_to_text_source env self)
            (if explicit_start_marker env (snd (code_to_text_active env self))
                  (code_to_text_source env self)
             then AList.update ''endofcell''
                    (VStr (py_endofcell_marker (code_to_text_source env self)))
                    (self_metadata (snd (code_to_text_active env self)))
             else self_metadata (snd (code_to_text_active env self)))
            (self_padlines self))"
  using code_to_text_active_fields[of env self]
  by (simp add: code_to_text_def code_to_text_source_def Let_def split_beta)

text \<open>
  C10. \<open>cell_source\<close> never returns an empty list: every cell, also one with an empty
  source, has at least one line. So has the source of an exporter built from the cell, on
  which \<open>markdown_escape\<close> and the test of \<open>explicit_start_marker\<close> on all lines work, and
  \<open>markdown_escape\<close> gives as many lines as it is given. The encoders are handed the list
  \<open>code_to_text_source\<close>: for a cell that is not active it is the source of the cell, line by
  line, and has at least one line; for an active cell it is what \<open>escape_magic\<close> makes of the
  source of the cell, and has at least one line when \<open>escape_magic\<close> gives at least one
  line for that source. With an \<open>escape_magic\<close> that changes the lines in place, as the
  spec describes it, the encoders are handed as many lines as the cell has, at least one,
  for every cell.
\<close>

theorem C10_cell_source_at_least_one_line:
  "cell_source cell \<noteq> [] \<and> 1 \<le> length (cell_source cell) \<and>
   length (markdown_escape self (cell_source cell)) = length (cell_source cell) \<and>
   (\<forall>e. CellExporter env cell default_language ext = Inr e \<longrightarrow>
      self_source e = cell_source cell \<and> self_source e \<noteq> [] \<and>
      (\<not> is_code e \<longrightarrow>
         cell_to_text env e = (Inr (markdown_escape e (cell_source cell)), e)) \<and>
      (\<not> fst (code_to_text_active env e) \<longrightarrow>
         code_to_text_source env e \<noteq> [] \<and>
         length (code_to_text_source env e) = length (cell_source cell)) \<and>
      (fst (code_to_text_active env e) \<longrightarrow>
         code_to_text_source env e = escape_magic env (cell_source cell) (self_language e)) \<and>
      (escape_magic env (cell_source cell) (self_language e) \<noteq> [] \<longrightarrow>
         code_to_text_source env e \<noteq> []) \<and>
      (escapes_in_place env \<longrightarrow>
         code_to_text_source env e \<noteq> [] \<and>
         length (code_to_text_source env e) = length (cell_source cell))) \<and>
   (self_ext self = ''.Rmd'' \<longrightarrow>
      fst (code_to_text env self) =
        fst (code_to_rmd env (code_to_text_source env self)
               (self_metadata (snd (code_to_text_active env self))) (self_language self))) \<and>
   (self_ext self = ''.R'' \<longrightarrow>
      fst (code_to_text env self) =
        fst (code_to_r env (code_to_text_source env self)
               (self_metadata (snd (code_to_text_active env self))))) \<and>
   (self_ext self \<noteq> ''.Rmd'' \<and> self_ext self \<noteq> ''.R'' \<longrightarrow>
      fst (code_to_text env self) =
        fst (code_to_py env (code_to_text_source env self)
               (if explicit_start_marker env (snd (code_to_text_active env self))
                     (code_to_text_source env self)
                then AList.update ''endofcell''
                       (VStr (py_endofcell_marker (code_to_text_source env self)))
                       (self_metadata (snd (code_to_text_active env self)))
                else self_metadata (snd (code_to_text_active env self)))
               (self_padlines self)))"
proof -
  have ne: "cell_source cell \<noteq> []" by (rule cell_source_nonempty)
  then have one: "1 \<le> length (cell_source cell)"
    by (simp add: Suc_le_eq)
  have built: "self_source e = cell_source cell \<and> self_source e \<noteq> [] \<and>
      (\<not> is_code e \<longrightarrow>
         cell_to_text env e = (Inr (markdown_escape e (cell_source cell)), e)) \<and>
      (\<not> fst (code_to_text_active env e) \<longrightarrow>
         code_to_text_source env e \<noteq> [] \<and>
         length (code_to_text_source env e) = length (cell_source cell)) \<and>
      (fst (code_to_text_active env e) \<longrightarrow>
         code_to_text_source env e = escape_magic env (cell_source cell) (self_language e)) \<and>
      (escape_magic env (cell_source cell) (self_language e) \<noteq> [] \<longrightarrow>
         code_to_text_source env e \<noteq> []) \<and>
      (escapes_in_place env \<longrightarrow>
         code_to_text_source env e \<noteq> [] \<and>
         length (code_to_text_source env e) = length (cell_source cell))"
    if "CellExporter env cell default_language ext = Inr e" for e
  proof -
    from that have src: "self_source e = cell_source cell"
      by (rule CellExporter_source)
    with ne have sne: "self_source e \<noteq> []" by simp
    have md: "\<not> is_code e \<longrightarrow>
         cell_to_text env e = (Inr (markdown_escape e (cell_source cell)), e)"
      using src by (simp add: cell_to_text_def)
    have inact: "\<not> fst (code_to_text_active env e) \<longrightarrow>
         code_to_text_source env e \<noteq> [] \<and>
         length (code_to_text_source env e) = length (cell_source cell)"
      using src ne by (simp add: code_to_text_source_inactive)
    have act: "fst (code_to_text_active env e) \<longrightarrow>
         code_to_text_source env e = escape_magic env (cell_source cell) (self_language e)"
      using src by (simp add: code_to_text_source_active)
    have esc: "escape_magic env (cell_source cell) (self_language e) \<noteq> [] \<longrightarrow>
         code_to_text_source env e \<noteq> []"
      using code_to_text_source_nonempty[of e env] sne src by simp
    have inpl: "escapes_in_place env \<longrightarrow>
         code_to_text_source env e \<noteq> [] \<and>
         length (code_to_text_source env e) = length (cell_source cell)"
    proof
      assume "escapes_in_place env"
      then have l: "length (escape_magic env (cell_source cell) (self_language e))
          = length (cell_source cell)"
        by (simp add: escapes_in_place_def)
      have "length (code_to_text_source env e) = length (cell_source cell)"
      proof (cases "fst (code_to_text_active env e)")
        case True
        with act l show ?thesis by simp
      next
        case False
        with inact show ?thesis by simp
      qed
      with ne show "code_to_text_source env e \<noteq> [] \<and>
         length (code_to_text_source env e) = length (cell_source cell)"
        by auto
    qed
    from src sne md inact act esc inpl show ?thesis by simp
  qed
  show ?thesis
    using ne one built code_to_text_rmd[of self env] code_to_text_r[of self env]
      code_to_text_py[of self env]
    by (simp add: length_markdown_escape)
qed

theorem C10_cell_source_at_least_one_line_witness:
  "cell_source \<lparr>c_cell_type = ''code'', c_source = [], c_metadata = []\<rparr> = [[]] \<and>
   (\<exists>e. CellExporter example_env \<lparr>c_cell_type = ''code'', c_source = [], c_metadata = []\<rparr>
           (Some ''python'') ''.py'' = Inr e \<and> self_source e = [[]] \<and>
        code_to_text_source example_env e \<noteq> [])"
proof -
  let ?c = "\<lparr>c_cell_type = ''code'', c_source = [], c_metadata = []\<rparr>"
  have cs: "cell_source ?c = [[]]" by (simp add: cell_source_def)
  obtain e where e: "CellExporter example_env ?c (Some ''python'') ''.py'' = Inr e"
    by (simp add: CellExporter_def Let_def has_key_def dict_get_def)
  have inpl: "escapes_in_place example_env"
    by (simp add: escapes_in_place_def example_env_def)
  from C10_cell_source_at_least_one_line[of ?c _ example_env "Some ''python''" "''.py''"] e inpl
  have "self_source e = cell_source ?c \<and> code_to_text_source example_env e \<noteq> []"
    by blast
  with e cs show ?thesis by auto
qed

end
